theory Spec2Isabelle
  imports Main
begin

section \<open>Go strings and the standard-library functions the program calls\<close>

text \<open>
  A Go \<open>string\<close> is a sequence of bytes; it is modelled as a \<open>string\<close> (a list of
  \<open>char\<close>, one per byte). The functions below model the parts of packages
  \<open>strings\<close>, \<open>strconv\<close>, \<open>fmt\<close> and \<open>path/filepath\<close> (Unix flavour, separator
  \<open>/\<close>) that the program uses. White space is the ASCII white space of
  \<open>strings.Fields\<close> and \<open>strings.TrimSpace\<close>; inputs are taken to be ASCII text.
\<close>

definition HasPrefix :: "string \<Rightarrow> string \<Rightarrow> bool" where
  "HasPrefix s p = (take (length p) s = p)"

definition TrimPrefix :: "string \<Rightarrow> string \<Rightarrow> string" where
  "TrimPrefix s p = (if HasPrefix s p then drop (length p) s else s)"

fun Contains :: "string \<Rightarrow> string \<Rightarrow> bool" where
  "Contains [] sub = (sub = [])"
| "Contains (x # xs) sub = (HasPrefix (x # xs) sub \<or> Contains xs sub)"

text \<open>\<open>strings.Index\<close>: the position of the first occurrence, \<open>-1\<close> when there is none.\<close>

fun index_from :: "nat \<Rightarrow> string \<Rightarrow> string \<Rightarrow> int" where
  "index_from i [] sub = (if sub = [] then int i else - 1)"
| "index_from i (x # xs) sub =
     (if HasPrefix (x # xs) sub then int i else index_from (Suc i) xs sub)"

definition Index :: "string \<Rightarrow> string \<Rightarrow> int" where
  "Index s sub = index_from 0 s sub"

text \<open>\<open>strings.LastIndex\<close> for a one-byte pattern.\<close>

fun last_index_from :: "nat \<Rightarrow> int \<Rightarrow> string \<Rightarrow> char \<Rightarrow> int" where
  "last_index_from i found [] c = found"
| "last_index_from i found (x # xs) c =
     last_index_from (Suc i) (if x = c then int i else found) xs c"

definition LastIndex :: "string \<Rightarrow> char \<Rightarrow> int" where
  "LastIndex s c = last_index_from 0 (- 1) s c"

text \<open>
  \<open>strings.Split(s, sep)\<close> for a one-byte separator (every call site of the program
  passes one: a newline, a slash or a colon). The result is never empty: a string
  without the separator is returned as its only element.
\<close>

fun split_from :: "string \<Rightarrow> string \<Rightarrow> char \<Rightarrow> string list" where
  "split_from cur [] c = [rev cur]"
| "split_from cur (x # xs) c =
     (if x = c then rev cur # split_from [] xs c else split_from (x # cur) xs c)"

definition Split :: "string \<Rightarrow> char \<Rightarrow> string list" where
  "Split s c = split_from [] s c"

definition is_space :: "char \<Rightarrow> bool" where
  "is_space c = (c \<in> set [CHR 0x09, CHR 0x0A, CHR 0x0B, CHR 0x0C, CHR 0x0D, CHR 0x20])"

text \<open>\<open>strings.Fields\<close>: the maximal runs of non-space bytes.\<close>

fun fields_from :: "string \<Rightarrow> string \<Rightarrow> string list" where
  "fields_from cur [] = (if cur = [] then [] else [rev cur])"
| "fields_from cur (x # xs) =
     (if is_space x then (if cur = [] then fields_from [] xs else rev cur # fields_from [] xs)
      else fields_from (x # cur) xs)"

definition Fields :: "string \<Rightarrow> string list" where
  "Fields s = fields_from [] s"

definition TrimSpace :: "string \<Rightarrow> string" where
  "TrimSpace s = rev (dropWhile is_space (rev (dropWhile is_space s)))"

text \<open>\<open>strings.ReplaceAll\<close> of one byte by one byte.\<close>

definition ReplaceAll :: "string \<Rightarrow> char \<Rightarrow> char \<Rightarrow> string" where
  "ReplaceAll s old new = map (\<lambda>c. if c = old then new else c) s"

text \<open>\<open>strings.Join\<close>.\<close>

fun strings_Join :: "string list \<Rightarrow> string \<Rightarrow> string" where
  "strings_Join [] sep = []"
| "strings_Join [e] sep = e"
| "strings_Join (e # f # es) sep = e @ sep @ strings_Join (f # es) sep"

subsection \<open>Decimal numbers\<close>

definition digit_val :: "char \<Rightarrow> int option" where
  "digit_val c = (let n = (of_char c :: int) in if 48 \<le> n \<and> n \<le> 57 then Some (n - 48) else None)"

fun parse_digits :: "int \<Rightarrow> string \<Rightarrow> int option" where
  "parse_digits acc [] = Some acc"
| "parse_digits acc (c # cs) =
     (case digit_val c of None \<Rightarrow> None | Some d \<Rightarrow> parse_digits (10 * acc + d) cs)"

text \<open>
  \<open>strconv.Atoi\<close>: an optional sign and at least one decimal digit, the value within
  the 64-bit \<open>int\<close>; \<open>None\<close> is the error return.
\<close>

definition Atoi :: "string \<Rightarrow> int option" where
  "Atoi s =
     (let neg = (s \<noteq> [] \<and> hd s = CHR ''-'');
          ds = (if s \<noteq> [] \<and> (hd s = CHR ''-'' \<or> hd s = CHR ''+'') then tl s else s)
      in if ds = [] then None
         else (case parse_digits 0 ds of
                 None \<Rightarrow> None
               | Some n \<Rightarrow>
                   (let v = (if neg then - n else n)
                    in if - 9223372036854775808 \<le> v \<and> v \<le> 9223372036854775807 then Some v
                       else None)))"

text \<open>\<open>fmt.Sprintf("%d", n)\<close> and \<open>strconv.Itoa\<close>.\<close>

function dec_digits :: "int \<Rightarrow> string" where
  "dec_digits n =
     (if n < 10 then [''0123456789'' ! nat n]
      else dec_digits (n div 10) @ [''0123456789'' ! nat (n mod 10)])"
  by pat_completeness auto
termination
  by (relation "measure nat") auto

declare dec_digits.simps [simp del]

definition Itoa :: "int \<Rightarrow> string" where
  "Itoa n = (if n < 0 then CHR ''-'' # dec_digits (- n) else dec_digits n)"

subsection \<open>Package \<open>path/filepath\<close> on Unix\<close>

text \<open>
  \<open>filepath.Clean\<close> works on the elements between slashes: empty elements and
  \<open>.\<close> are dropped, \<open>..\<close> removes the element before it (at the root it is
  dropped, in a relative path with nothing to remove it is kept), and the empty result
  is \<open>.\<close>. The stack \<open>out\<close> holds the elements kept so far, the last one first.
\<close>

definition clean_step :: "bool \<Rightarrow> string list \<Rightarrow> string \<Rightarrow> string list" where
  "clean_step rooted out e =
     (if e = [] \<or> e = ''.'' then out
      else if e = ''..'' then
        (if out \<noteq> [] \<and> hd out \<noteq> ''..'' then tl out
         else if \<not> rooted then ''..'' # out
         else out)
      else e # out)"

definition Clean :: "string \<Rightarrow> string" where
  "Clean path =
     (if path = [] then ''.''
      else (let rooted = (hd path = CHR ''/'');
                out = foldl (clean_step rooted) [] (Split path (CHR ''/''))
            in if rooted then CHR ''/'' # strings_Join (rev out) ''/''
               else if out = [] then ''.''
               else strings_Join (rev out) ''/''))"

text \<open>
  \<open>filepath.Dir\<close> scans back from the end to the last slash and cleans everything
  up to and including it.
\<close>

definition Dir :: "string \<Rightarrow> string" where
  "Dir path = Clean (rev (dropWhile (\<lambda>c. c \<noteq> CHR ''/'') (rev path)))"

text \<open>
  \<open>filepath.Base\<close>: trailing slashes are stripped, then the part after the last slash
  is kept; a path of slashes only is \<open>/\<close>.
\<close>

definition Base :: "string \<Rightarrow> string" where
  "Base path =
     (if path = [] then ''.''
      else (let p = rev (dropWhile (\<lambda>c. c = CHR ''/'') (rev path));
                q = rev (takeWhile (\<lambda>c. c \<noteq> CHR ''/'') (rev p))
            in if q = [] then ''/'' else q))"

text \<open>\<open>filepath.Join\<close>: leading empty elements are ignored, the rest is joined and cleaned.\<close>

definition Join :: "string list \<Rightarrow> string" where
  "Join elem =
     (let es = dropWhile (\<lambda>e. e = []) elem
      in if es = [] then [] else Clean (strings_Join es ''/''))"

subsection \<open>\<open>filepath.Dir\<close> shortens a path\<close>

text \<open>
  The upward walk of \<open>detectProject\<close> ends because every step to the parent
  directory makes the path shorter, unless the parent is \<open>/\<close> or \<open>.\<close>.
  \<open>plen\<close> counts the bytes of a list of path elements, one more for each.
\<close>

definition plen :: "string list \<Rightarrow> nat" where
  "plen es = sum_list (map (\<lambda>e. Suc (length e)) es)"

lemma plen_Nil [simp]: "plen [] = 0"
  by (simp add: plen_def)

lemma plen_rev [simp]: "plen (rev es) = plen es"
  by (simp add: plen_def rev_map [symmetric])

lemma split_from_append_sep:
  "split_from cur (a @ c # b) c = split_from cur a c @ split_from [] b c"
  by (induction a arbitrary: cur) auto

lemma Split_append_sep: "Split (a @ c # b) c = Split a c @ Split b c"
  by (simp add: Split_def split_from_append_sep)

lemma plen_split_from: "plen (split_from cur s c) = Suc (length cur + length s)"
  by (induction s arbitrary: cur) (auto simp: plen_def)

lemma plen_Split: "plen (Split s c) = Suc (length s)"
  by (simp add: Split_def plen_split_from)

lemma Split_Cons_sep: "Split (c # s) c = [] # Split s c"
  by (simp add: Split_def)

lemma Split_Nil: "Split [] c = [[]]"
  by (simp add: Split_def)

lemma plen_clean_step: "plen (clean_step r out e) \<le> plen out + Suc (length e)"
  by (cases out) (auto simp: clean_step_def plen_def)

lemma plen_foldl_clean: "plen (foldl (clean_step r) out es) \<le> plen out + plen es"
proof (induction es arbitrary: out)
  case Nil
  then show ?case by simp
next
  case (Cons e es)
  have "plen (foldl (clean_step r) (clean_step r out e) es) \<le> plen (clean_step r out e) + plen es"
    by (rule Cons.IH)
  also have "\<dots> \<le> plen out + Suc (length e) + plen es"
    using plen_clean_step [of r out e] by simp
  finally show ?case by (simp add: plen_def)
qed

lemma length_strings_Join: "length (strings_Join es ''/'') = plen es - 1"
  by (induction es "''/''" rule: strings_Join.induct) (auto simp: plen_def)

lemma length_Clean: "p \<noteq> [] \<Longrightarrow> length (Clean p) \<le> length p"
proof -
  assume ne: "p \<noteq> []"
  then obtain x xs where p: "p = x # xs" by (cases p) auto
  show ?thesis
  proof (cases "x = CHR ''/''")
    case True
    define out where "out = foldl (clean_step True) [] (Split xs (CHR ''/''))"
    have "plen out \<le> plen [] + plen (Split xs (CHR ''/''))"
      unfolding out_def by (rule plen_foldl_clean)
    then have "plen out \<le> Suc (length xs)"
      by (simp add: plen_Split)
    moreover have "Clean p = CHR ''/'' # strings_Join (rev out) ''/''"
      using True by (simp add: p Clean_def out_def clean_step_def Split_Cons_sep)
    ultimately show ?thesis
      by (simp add: p length_strings_Join)
  next
    case False
    define out where "out = foldl (clean_step False) [] (Split p (CHR ''/''))"
    have "plen out \<le> plen [] + plen (Split p (CHR ''/''))"
      unfolding out_def by (rule plen_foldl_clean)
    then have le: "plen out \<le> Suc (length p)"
      by (simp add: plen_Split)
    have cl: "Clean p = (if out = [] then ''.'' else strings_Join (rev out) ''/'')"
      using False by (simp add: p Clean_def out_def Let_def)
    from le cl ne show ?thesis
      by (cases p) (auto simp: length_strings_Join)
  qed
qed

lemma Clean_trailing_slash: "q \<noteq> [] \<Longrightarrow> Clean (q @ ''/'') = Clean q"
proof -
  assume "q \<noteq> []"
  then have hd: "hd (q @ ''/'') = hd q" by simp
  have "Split (q @ ''/'') (CHR ''/'') = Split q (CHR ''/'') @ [[]]"
    using Split_append_sep [of q "CHR ''/''" "[]"] by (simp add: Split_Nil)
  then have "foldl (clean_step r) [] (Split (q @ ''/'') (CHR ''/'')) =
             foldl (clean_step r) [] (Split q (CHR ''/''))" for r
    by (simp add: clean_step_def)
  with hd \<open>q \<noteq> []\<close> show ?thesis
    by (simp add: Clean_def)
qed

lemma Dir_shorter:
  assumes "Dir p \<noteq> ''/''" and "Dir p \<noteq> ''.''"
  shows "length (Dir p) < length p"
proof -
  define q where "q = rev (dropWhile (\<lambda>c. c \<noteq> CHR ''/'') (rev p))"
  have D: "Dir p = Clean q" by (simp add: Dir_def q_def)
  have len: "length q \<le> length p"
    by (simp add: q_def length_dropWhile_le [of _ "rev p", simplified])
  show ?thesis
  proof (cases "q = []")
    case True
    with D assms show ?thesis by (simp add: Clean_def)
  next
    case False
    then have "dropWhile (\<lambda>c. c \<noteq> CHR ''/'') (rev p) \<noteq> []" by (simp add: q_def)
    then have "hd (dropWhile (\<lambda>c. c \<noteq> CHR ''/'') (rev p)) = CHR ''/''"
      using hd_dropWhile [of "\<lambda>c. c \<noteq> CHR ''/''" "rev p"] by simp
    with False have "last q = CHR ''/''"
      by (simp add: q_def last_rev)
    with False obtain q' where q': "q = q' @ ''/''"
      by (metis append_butlast_last_id)
    show ?thesis
    proof (cases "q' = []")
      case True
      with q' D assms show ?thesis by (simp add: Clean_def clean_step_def Split_def)
    next
      case False
      then have "Clean q = Clean q'" by (simp add: q' Clean_trailing_slash)
      moreover have "length (Clean q') \<le> length q'" using False by (rule length_Clean)
      ultimately show ?thesis using D len q' by simp
    qed
  qed
qed

lemma Dir_root [simp]: "Dir ''/'' = ''/''"
  by (simp add: Dir_def Clean_def clean_step_def Split_def)

lemma Dir_dot [simp]: "Dir ''.'' = ''.''"
  by (simp add: Dir_def Clean_def)

section \<open>The operating system as the program sees it\<close>

text \<open>
  Every query of the operating system is a field of the record \<open>os\<close>: the result
  the call gives in the snapshot the program runs in. \<open>None\<close> is the error return of
  the Go call. \<open>exec_Output\<close> is \<open>exec.Command(name, args...).Output()\<close> on the
  argument vector: \<open>Inr\<close> the standard output on success, \<open>Inl\<close> the error
  otherwise, which is the exit code of a command that ran and failed
  (\<open>*exec.ExitError\<close>) or \<open>StartError\<close> when the command could not be started.
  A \<open>time.Time\<close> is an integer, the nanoseconds since the zero time, so that
  \<open>IsZero\<close> is the test for \<open>0\<close>. \<open>time_Parse\<close> is \<open>time.Parse\<close> with the
  layout of \<open>ps -o lstart=\<close> and \<open>time_Date\<close> is \<open>time.Date\<close> in the local
  zone: the date arithmetic of the library, which the program only calls.
\<close>

datatype exec_error = ExitError int | StartError

type_synonym cmd_result = "exec_error + string"

type_synonym time = int

record os =
  os_Stat :: "string \<Rightarrow> time option"
  os_ReadFile :: "string \<Rightarrow> string option"
  os_Readlink :: "string \<Rightarrow> string option"
  exec_Output :: "string list \<Rightarrow> cmd_result"
  sys_Uptime :: "int option"
  time_Now :: time
  time_Parse :: "string \<Rightarrow> time option"
  time_Date :: "int \<Rightarrow> int \<Rightarrow> int \<Rightarrow> int \<Rightarrow> int \<Rightarrow> int \<Rightarrow> time"

section \<open>The process record and the project-directory heuristic\<close>

record Process =
  PID :: int
  Name :: string
  Port :: int
  Command :: string
  ProjectPath :: string
  StartTime :: time
  IsDocker :: bool
  DockerID :: string

text \<open>The value of \<open>&Process{PID: pid, Name: name, Port: port}\<close>: the other fields are zero.\<close>

definition new_Process :: "int \<Rightarrow> string \<Rightarrow> int \<Rightarrow> Process" where
  "new_Process pid name port =
     \<lparr>PID = pid, Name = name, Port = port, Command = [], ProjectPath = [],
      StartTime = 0, IsDocker = False, DockerID = []\<rparr>"

definition indicators :: "string list" where
  "indicators = [''package.json'', ''go.mod'', ''Cargo.toml'', ''pom.xml'', ''build.gradle'',
                 ''requirements.txt'', ''Gemfile'', ''.git'']"

text \<open>The inner loop of \<open>detectProject\<close>: some indicator exists in \<open>current\<close>.\<close>

definition has_indicator :: "('a os_scheme) \<Rightarrow> string \<Rightarrow> bool" where
  "has_indicator w current =
     list_ex (\<lambda>indicator. os_Stat w (Join [current, indicator]) \<noteq> None) indicators"

text \<open>
  The outer loop of \<open>detectProject\<close>: \<open>Some current\<close> is the \<open>return current\<close>
  inside the loop, \<open>None\<close> the \<open>break\<close>.
\<close>

function walk_up :: "('a os_scheme) \<Rightarrow> string \<Rightarrow> string option" where
  "walk_up w current =
     (if has_indicator w current then Some current
      else (let parent = Dir current
            in if parent = current \<or> parent = ''/'' \<or> parent = ''.'' then None
               else walk_up w parent))"
  by pat_completeness auto
termination
  by (relation "measure (\<lambda>(w, current). length current)") (auto simp: Dir_shorter)

declare walk_up.simps [simp del]

definition detectProject :: "('a os_scheme) \<Rightarrow> int \<Rightarrow> string \<Rightarrow> string" where
  "detectProject w pid cwd0 =
     (if cwd0 = [] then ''unknown''
      else (let cwd = Clean cwd0
            in case walk_up w cwd of
                 Some current \<Rightarrow> current
               | None \<Rightarrow>
                   (if Contains cwd ''home'' \<or> Contains cwd ''Users''
                    then (let parts = Split cwd (CHR ''/'')
                          in if length parts > 4 then Join (drop (length parts - 2) parts)
                             else Base cwd)
                    else Base cwd)))"

text \<open>
  The ancestor chain of a path: the path, its parent, the parent of that, up to the
  directory that is its own parent (\<open>/\<close>, or \<open>.\<close> for a relative path). The
  middle branch only serves the termination proof: \<open>/\<close> and \<open>.\<close> are their own
  parents, and \<open>ancestors_rec\<close> is the recursion without it.
\<close>

function ancestors :: "string \<Rightarrow> string list" where
  "ancestors p =
     (if Dir p = p then [p]
      else if Dir p = ''/'' \<or> Dir p = ''.'' then [p, Dir p]
      else p # ancestors (Dir p))"
  by pat_completeness auto
termination
  by (relation "measure length") (auto simp: Dir_shorter)

declare ancestors.simps [simp del]

lemma ancestors_rec: "ancestors p = (if Dir p = p then [p] else p # ancestors (Dir p))"
proof (cases "Dir p = ''/'' \<or> Dir p = ''.''")
  case True
  then have "ancestors (Dir p) = [Dir p]"
    by (auto simp: ancestors.simps [of "''/''"] ancestors.simps [of "''.''"])
  with True show ?thesis
    by (subst ancestors.simps) auto
next
  case False
  then show ?thesis by (subst ancestors.simps) auto
qed

text \<open>
  The two fallback labels of \<open>detectProject\<close>, in the words of the specification: a
  path "appears to live under a user home directory" when it contains \<open>home\<close> or
  \<open>Users\<close>, and its "last two path segments" are joined by \<open>filepath.Join\<close>.
\<close>

definition under_home :: "string \<Rightarrow> bool" where
  "under_home c = (Contains c ''home'' \<or> Contains c ''Users'')"

definition last_two_segments :: "string \<Rightarrow> string" where
  "last_two_segments c =
     (let parts = Split c (CHR ''/'') in Join (drop (length parts - 2) parts))"

text \<open>
  Two snapshots for concrete runs: \<open>bare_os\<close>, where every query fails and no file
  exists, and \<open>with_file f w\<close>, which is \<open>w\<close> with the file \<open>f\<close> added.
\<close>

definition bare_os :: os where
  "bare_os =
     \<lparr>os_Stat = (\<lambda>p. None), os_ReadFile = (\<lambda>p. None), os_Readlink = (\<lambda>p. None),
      exec_Output = (\<lambda>argv. Inl StartError), sys_Uptime = None, time_Now = 1,
      time_Parse = (\<lambda>s. None), time_Date = (\<lambda>y mo d h mi s. 1)\<rparr>"


subsection \<open>The walk finds the closest marked ancestor\<close>


lemma walk_up_none:
  "find (has_indicator w) (ancestors cur) = None \<Longrightarrow> walk_up w cur = None"
proof (induction cur rule: ancestors.induct)
  case (1 p)
  from "1.prems" have np: "\<not> has_indicator w p"
    by (subst (asm) ancestors.simps) (auto split: if_splits)
  show ?case
  proof (cases "Dir p = p \<or> Dir p = ''/'' \<or> Dir p = ''.''")
    case True
    with np show ?thesis by (subst walk_up.simps) (auto simp: Let_def)
  next
    case False
    with "1.prems" have "find (has_indicator w) (ancestors (Dir p)) = None"
      by (subst (asm) ancestors.simps) (auto split: if_splits)
    with False have "walk_up w (Dir p) = None" using "1.IH" by blast
    with np False show ?thesis by (subst walk_up.simps) (simp add: Let_def)
  qed
qed




subsection \<open>The fallback label\<close>

text \<open>
  Claim C6, as the code has it. For a non-empty start path with no marker anywhere in
  its ancestor chain, \<open>detectProject\<close> returns the last two segments of the cleaned
  path, joined, when the path contains \<open>home\<close> or \<open>Users\<close> and splits at \<open>/\<close>
  into more than four parts; otherwise it returns the final segment.
\<close>

theorem detectProject_no_marker:
  assumes "cwd \<noteq> []"
    and "find (has_indicator w) (ancestors (Clean cwd)) = None"
  shows "detectProject w pid cwd =
    (if under_home (Clean cwd) \<and> length (Split (Clean cwd) (CHR ''/'')) > 4
     then last_two_segments (Clean cwd) else Base (Clean cwd))"
  using assms
  by (simp add: detectProject_def walk_up_none under_home_def last_two_segments_def Let_def)

text \<open>The scenario of the specification: \<open>/var/data/x\<close> with no marker yields \<open>x\<close>.\<close>

theorem detectProject_no_marker_witness:
  "''/var/data/x'' \<noteq> [] \<and>
   find (has_indicator bare_os) (ancestors (Clean ''/var/data/x'')) = None \<and>
   detectProject bare_os 4242 ''/var/data/x'' = ''x''"
proof -
  have h1: "''/var/data/x'' \<noteq> []" by simp
  have h2: "find (has_indicator bare_os) (ancestors (Clean ''/var/data/x'')) = None"
    by code_simp
  have h3: "(if under_home (Clean ''/var/data/x'') \<and> length (Split (Clean ''/var/data/x'') (CHR ''/'')) > 4
     then last_two_segments (Clean ''/var/data/x'') else Base (Clean ''/var/data/x'')) = ''x''"
    by code_simp
  from detectProject_no_marker [OF h1 h2, of 4242] h1 h2 h3 show ?thesis by simp
qed

text \<open>
  Claim C6 as stated fails for a path under a home directory that is less than four
  directories deep: \<open>/home/u/app\<close> has no marker and lies under \<open>/home/u\<close>, its last
  two segments are \<open>u/app\<close>, and \<open>detectProject\<close> returns \<open>app\<close>.
\<close>

theorem detectProject_shallow_home_counterexample:
  "find (has_indicator bare_os) (ancestors (Clean ''/home/u/app'')) = None \<and>
   under_home (Clean ''/home/u/app'') \<and>
   last_two_segments (Clean ''/home/u/app'') = ''u/app'' \<and>
   detectProject bare_os 4242 ''/home/u/app'' = ''app''"
  by code_simp

subsection \<open>The process identifier is not used\<close>

text \<open>
  Claim C9. The result of \<open>detectProject\<close> does not depend on its \<open>pid\<close> argument:
  under the same filesystem state, two calls with the same start path and any two
  process identifiers return the same string.
\<close>

theorem detectProject_pid_independent:
  "detectProject w pid1 cwd = detectProject w pid2 cwd"
  by (simp add: detectProject_def)

section \<open>Container detection\<close>

text \<open>
  The loop of \<open>isDockerProcess\<close> over the lines of the cgroup text: \<open>Some id\<close> is
  the \<open>return true, containerID[:12]\<close> inside the loop, \<open>None\<close> its end.
\<close>

fun docker_id_loop :: "string list \<Rightarrow> string option" where
  "docker_id_loop [] = None"
| "docker_id_loop (line # lines) =
     (if Contains line ''docker'' then
        (let parts = Split line (CHR ''/'')
         in if length parts > 0 then
              (let containerID = last parts
               in if length containerID \<ge> 12 then Some (take 12 containerID)
                  else docker_id_loop lines)
            else docker_id_loop lines)
      else docker_id_loop lines)"

definition isDockerProcess :: "('a os_scheme) \<Rightarrow> int \<Rightarrow> bool \<times> string" where
  "isDockerProcess w pid =
     (let cgroupPath = ''/proc/'' @ Itoa pid @ ''/cgroup''
      in case os_ReadFile w cgroupPath of
           None \<Rightarrow> (False, [])
         | Some content \<Rightarrow>
             (if Contains content ''docker'' then
                (case docker_id_loop (Split content (CHR 0x0A)) of
                   Some containerID \<Rightarrow> (True, containerID)
                 | None \<Rightarrow> (True, ''unknown''))
              else (False, [])))"

text \<open>\<open>with_content f content w\<close> is \<open>w\<close> with the readable file \<open>f\<close> added.\<close>

definition with_content :: "string \<Rightarrow> string \<Rightarrow> os \<Rightarrow> os" where
  "with_content f content w = w\<lparr>os_ReadFile := (os_ReadFile w)(f \<mapsto> content)\<rparr>"

lemma Split_nonempty: "Split s c \<noteq> []"
  using plen_Split [of s c] by auto

text \<open>
  A line matches when it contains the marker \<open>docker\<close>; it gives the identifier
  when, in addition, its last segment has at least twelve bytes.
\<close>

definition marker_line :: "string \<Rightarrow> bool" where
  "marker_line line = Contains line ''docker''"

definition id_line :: "string \<Rightarrow> bool" where
  "id_line line = (marker_line line \<and> 12 \<le> length (last (Split line (CHR ''/''))))"

lemma docker_id_loop_find:
  "docker_id_loop lines =
     map_option (\<lambda>line. take 12 (last (Split line (CHR ''/'')))) (find id_line lines)"
  by (induction lines) (auto simp: id_line_def marker_line_def Let_def Split_nonempty)

text \<open>
  Claim C8, as the code has it. Container detection returns \<open>(false, "")\<close> when the
  cgroup file of the process cannot be read or does not contain \<open>docker\<close>. When it
  contains \<open>docker\<close>, the result is \<open>true\<close> with the first twelve bytes of the last
  \<open>/\<close>-segment of the first line that contains \<open>docker\<close> and whose last segment has
  at least twelve bytes, and \<open>true\<close> with the identifier \<open>unknown\<close> when there is no
  such line.
\<close>

theorem isDockerProcess_result:
  "isDockerProcess w pid =
     (case os_ReadFile w (''/proc/'' @ Itoa pid @ ''/cgroup'') of
        None \<Rightarrow> (False, [])
      | Some content \<Rightarrow>
          if \<not> Contains content ''docker'' then (False, [])
          else (case find id_line (Split content (CHR 0x0A)) of
                  Some line \<Rightarrow> (True, take 12 (last (Split line (CHR ''/''))))
                | None \<Rightarrow> (True, ''unknown'')))"
  by (simp add: isDockerProcess_def docker_id_loop_find split: option.splits)

text \<open>
  A run of the theorem on the cgroup text of a container: both lines name the
  container, and the identifier is the first twelve bytes of the last segment.
\<close>

theorem isDockerProcess_result_witness:
  "isDockerProcess
     (with_content ''/proc/4242/cgroup''
        ''12:memory:/docker/0123456789abcdef0123456789abcdef\<newline>11:cpu:/docker/0123456789abcdef0123456789abcdef\<newline>''
        bare_os) 4242
   = (True, ''0123456789ab'')"
proof -
  have "(case os_ReadFile
          (with_content ''/proc/4242/cgroup''
            ''12:memory:/docker/0123456789abcdef0123456789abcdef\<newline>11:cpu:/docker/0123456789abcdef0123456789abcdef\<newline>''
            bare_os) (''/proc/'' @ Itoa 4242 @ ''/cgroup'') of
        None \<Rightarrow> (False, [])
      | Some content \<Rightarrow>
          if \<not> Contains content ''docker'' then (False, [])
          else (case find id_line (Split content (CHR 0x0A)) of
                  Some line \<Rightarrow> (True, take 12 (last (Split line (CHR ''/''))))
                | None \<Rightarrow> (True, ''unknown''))) = (True, ''0123456789ab'')"
    by code_simp
  then show ?thesis
    by (simp only: isDockerProcess_result)
qed

text \<open>
  Claim C8 as stated fails when the last segment of the matching line is shorter than
  twelve bytes: the cgroup text \<open>0::/docker/build\<close> contains the marker, the last
  segment of its only matching line is \<open>build\<close>, and the identifier reported is
  \<open>unknown\<close>.
\<close>

theorem isDockerProcess_short_segment_counterexample:
  "Contains ''0::/docker/build\<newline>'' ''docker'' \<and>
   find marker_line (Split ''0::/docker/build\<newline>'' (CHR 0x0A))
     = Some ''0::/docker/build'' \<and>
   take 12 (last (Split ''0::/docker/build'' (CHR ''/''))) = ''build'' \<and>
   isDockerProcess (with_content ''/proc/4242/cgroup'' ''0::/docker/build\<newline>'' bare_os) 4242
     = (True, ''unknown'')"
  by code_simp

section \<open>The Linux backend\<close>

text \<open>
  A Go error value. \<open>Exec\<close> is the error of \<open>cmd.Output()\<close>, \<open>Errno\<close> a failed
  system call, \<open>Msg\<close> an error made by \<open>fmt.Errorf\<close> without a cause and
  \<open>Wrap\<close> one made with \<open>%w\<close>. \<open>Panic\<close> is not an error value: it is the
  run-time panic of an out-of-range index or slice, which ends the program.
\<close>

datatype error = Exec exec_error | Errno string | Msg string | Wrap string error | Panic string

type_synonym 'a result = "error + 'a"

text \<open>
  \<open>wrap64\<close> is the value an \<open>int64\<close> holds after an operation whose mathematical
  result is \<open>x\<close>; \<open>quot\<close> is Go's integer division, which truncates towards zero.
\<close>

definition wrap64 :: "int \<Rightarrow> int" where
  "wrap64 x = (x + 9223372036854775808) mod 18446744073709551616 - 9223372036854775808"

definition quot :: "int \<Rightarrow> int \<Rightarrow> int" where
  "quot a b = sgn a * sgn b * (\<bar>a\<bar> div \<bar>b\<bar>)"

text \<open>
  \<open>getProcessStartTime\<close>. Durations are \<open>int64\<close> nanoseconds; \<open>Time.Add\<close> is
  addition on the nanoseconds since the zero time.
\<close>

definition getProcessStartTime :: "('a os_scheme) \<Rightarrow> int \<Rightarrow> time result" where
  "getProcessStartTime w pid =
     (let statPath = ''/proc/'' @ Itoa pid @ ''/stat''
      in case os_ReadFile w statPath of
           None \<Rightarrow> Inl (Errno statPath)
         | Some content \<Rightarrow>
             (let lastParen = LastIndex content (CHR '')'')
              in if lastParen = - 1 then Inl (Msg ''invalid stat format'')
                 else (let fields = Fields (drop (nat (lastParen + 1)) content)
                       in if length fields < 20 then Inl (Msg ''not enough fields in stat'')
                          else (case Atoi (fields ! 19) of
                                  None \<Rightarrow> Inl (Msg ''strconv.ParseInt'')
                                | Some startTicks \<Rightarrow>
                                    (case sys_Uptime w of
                                       None \<Rightarrow> Inl (Errno ''sysinfo'')
                                     | Some uptime \<Rightarrow>
                                         (let clockTicks = 100;
                                              bootTime = time_Now w +
                                                wrap64 (wrap64 (- uptime) * 1000000000);
                                              startTime = bootTime +
                                                wrap64 (quot (wrap64 (startTicks * 1000)) clockTicks
                                                        * 1000000)
                                          in Inr startTime))))))"

definition enrichProcessInfo_linux :: "('a os_scheme) \<Rightarrow> Process \<Rightarrow> Process" where
  "enrichProcessInfo_linux w proc0 =
     (let pid = PID proc0;
          proc1 = (if Name proc0 = [] then
                     (case os_ReadFile w (''/proc/'' @ Itoa pid @ ''/comm'') of
                        Some cmdline \<Rightarrow> proc0\<lparr>Name := TrimSpace cmdline\<rparr>
                      | None \<Rightarrow> proc0)
                   else proc0);
          proc2 = (case os_ReadFile w (''/proc/'' @ Itoa pid @ ''/cmdline'') of
                     Some cmdline \<Rightarrow> proc1\<lparr>Command := TrimSpace (ReplaceAll cmdline (CHR 0x00) (CHR 0x20))\<rparr>
                   | None \<Rightarrow> proc1);
          proc3 = (case os_Readlink w (''/proc/'' @ Itoa pid @ ''/cwd'') of
                     Some cwd \<Rightarrow> proc2\<lparr>ProjectPath := detectProject w pid cwd\<rparr>
                   | None \<Rightarrow> proc2);
          proc4 = (case getProcessStartTime w pid of
                     Inr startTime \<Rightarrow> proc3\<lparr>StartTime := startTime\<rparr>
                   | Inl err \<Rightarrow>
                       (case os_Stat w (''/proc/'' @ Itoa pid) of
                          Some modTime \<Rightarrow> proc3\<lparr>StartTime := modTime\<rparr>
                        | None \<Rightarrow> proc3))
      in proc4\<lparr>IsDocker := fst (isDockerProcess w pid), DockerID := snd (isDockerProcess w pid)\<rparr>)"

text \<open>
  \<open>parseSSLine\<close>. The slice \<open>pidProg[pidStart : pidStart+pidEnd]\<close> panics when
  neither a comma nor a parenthesis follows \<open>pid=\<close>, since \<open>pidEnd\<close> is then \<open>-1\<close>.
\<close>

definition parseSSLine :: "('a os_scheme) \<Rightarrow> string \<Rightarrow> int \<Rightarrow> Process option result" where
  "parseSSLine w line port =
     (let fields = Fields line
      in if length fields < 7 then Inr None
         else (let pidProg = last fields
               in if \<not> Contains pidProg ''pid='' then Inr None
                  else (let pidStart = Index pidProg ''pid='' + 4;
                            rest = drop (nat pidStart) pidProg;
                            pidEnd = (if Index rest '','' = - 1 then Index rest '')''
                                      else Index rest '','')
                        in if pidEnd < 0 then Inl (Panic ''slice bounds out of range'')
                           else (case Atoi (take (nat pidEnd) rest) of
                                   None \<Rightarrow> Inr None
                                 | Some pid \<Rightarrow>
                                     Inr (Some (enrichProcessInfo_linux w (new_Process pid [] port)))))))"

definition parseNetstatLine :: "('a os_scheme) \<Rightarrow> string \<Rightarrow> int \<Rightarrow> Process option result" where
  "parseNetstatLine w line port =
     (let fields = Fields line
      in if length fields < 7 then Inr None
         else (let pidProg = fields ! 6
               in if pidProg = ''-'' then Inr None
                  else (let parts = Split pidProg (CHR ''/'')
                        in if length parts \<noteq> 2 then Inr None
                           else (case Atoi (parts ! 0) of
                                   None \<Rightarrow> Inr None
                                 | Some pid \<Rightarrow>
                                     Inr (Some (enrichProcessInfo_linux w (new_Process pid (parts ! 1) port)))))))"

text \<open>
  The loops of \<open>findUsingSS\<close> and \<open>findUsingNetstat\<close> over the lines of the
  output: the first line that contains \<open>:port\<close> and \<open>LISTEN\<close> decides.
\<close>

fun findUsingSS_loop :: "('a os_scheme) \<Rightarrow> int \<Rightarrow> string list \<Rightarrow> Process option result" where
  "findUsingSS_loop w port [] = Inr None"
| "findUsingSS_loop w port (line # lines) =
     (if Contains line ('':'' @ Itoa port) \<and> Contains line ''LISTEN'' then parseSSLine w line port
      else findUsingSS_loop w port lines)"

fun findUsingNetstat_loop :: "('a os_scheme) \<Rightarrow> int \<Rightarrow> string list \<Rightarrow> Process option result" where
  "findUsingNetstat_loop w port [] = Inr None"
| "findUsingNetstat_loop w port (line # lines) =
     (if Contains line ('':'' @ Itoa port) \<and> Contains line ''LISTEN''
      then parseNetstatLine w line port
      else findUsingNetstat_loop w port lines)"

definition findUsingSS :: "('a os_scheme) \<Rightarrow> int \<Rightarrow> Process option result" where
  "findUsingSS w port =
     (case exec_Output w [''ss'', ''-tulnp'', ''sport = :'' @ Itoa port] of
        Inl err \<Rightarrow> Inl (Exec err)
      | Inr output \<Rightarrow> findUsingSS_loop w port (tl (Split output (CHR 0x0A))))"

definition findUsingNetstat :: "('a os_scheme) \<Rightarrow> int \<Rightarrow> Process option result" where
  "findUsingNetstat w port =
     (case exec_Output w [''netstat'', ''-tulnp''] of
        Inl err \<Rightarrow> Inl (Exec err)
      | Inr output \<Rightarrow> findUsingNetstat_loop w port (Split output (CHR 0x0A)))"

definition FindByPort_linux :: "('a os_scheme) \<Rightarrow> int \<Rightarrow> Process option result" where
  "FindByPort_linux w port =
     (case findUsingSS w port of
        Inr (Some proc) \<Rightarrow> Inr (Some proc)
      | Inl (Panic m) \<Rightarrow> Inl (Panic m)
      | _ \<Rightarrow> findUsingNetstat w port)"

text \<open>
  The loops of \<open>parseSSOutput\<close> and \<open>parseNetstatOutput\<close>; \<open>processes\<close> is
  the slice built so far. Every record a line yields is appended: nothing compares it
  with the records already there.
\<close>

fun parseSSOutput_loop :: "('a os_scheme) \<Rightarrow> Process list \<Rightarrow> string list \<Rightarrow> Process list result" where
  "parseSSOutput_loop w processes [] = Inr processes"
| "parseSSOutput_loop w processes (line # lines) =
     (if \<not> Contains line ''LISTEN'' then parseSSOutput_loop w processes lines
      else (let fields = Fields line
            in if length fields < 5 then parseSSOutput_loop w processes lines
               else (let addr = fields ! 4;
                         parts = Split addr (CHR '':'')
                     in if length parts < 2 then parseSSOutput_loop w processes lines
                        else (case Atoi (last parts) of
                                None \<Rightarrow> parseSSOutput_loop w processes lines
                              | Some port \<Rightarrow>
                                  (case parseSSLine w line port of
                                     Inl err \<Rightarrow> Inl err
                                   | Inr None \<Rightarrow> parseSSOutput_loop w processes lines
                                   | Inr (Some proc) \<Rightarrow>
                                       parseSSOutput_loop w (processes @ [proc]) lines)))))"

fun parseNetstatOutput_loop :: "('a os_scheme) \<Rightarrow> Process list \<Rightarrow> string list \<Rightarrow> Process list result" where
  "parseNetstatOutput_loop w processes [] = Inr processes"
| "parseNetstatOutput_loop w processes (line # lines) =
     (if \<not> Contains line ''LISTEN'' then parseNetstatOutput_loop w processes lines
      else (let fields = Fields line
            in if length fields < 7 then parseNetstatOutput_loop w processes lines
               else (let addr = fields ! 3;
                         parts = Split addr (CHR '':'')
                     in if length parts < 2 then parseNetstatOutput_loop w processes lines
                        else (case Atoi (last parts) of
                                None \<Rightarrow> parseNetstatOutput_loop w processes lines
                              | Some port \<Rightarrow>
                                  (case parseNetstatLine w line port of
                                     Inl err \<Rightarrow> Inl err
                                   | Inr None \<Rightarrow> parseNetstatOutput_loop w processes lines
                                   | Inr (Some proc) \<Rightarrow>
                                       parseNetstatOutput_loop w (processes @ [proc]) lines)))))"

definition parseSSOutput :: "('a os_scheme) \<Rightarrow> string \<Rightarrow> Process list result" where
  "parseSSOutput w output = parseSSOutput_loop w [] (tl (Split output (CHR 0x0A)))"

definition parseNetstatOutput_linux :: "('a os_scheme) \<Rightarrow> string \<Rightarrow> Process list result" where
  "parseNetstatOutput_linux w output = parseNetstatOutput_loop w [] (Split output (CHR 0x0A))"

definition ListAll_linux :: "('a os_scheme) \<Rightarrow> Process list result" where
  "ListAll_linux w =
     (case exec_Output w [''ss'', ''-tulnp''] of
        Inr output \<Rightarrow> parseSSOutput w output
      | Inl err \<Rightarrow>
          (case exec_Output w [''netstat'', ''-tulnp''] of
             Inl err' \<Rightarrow> Inl (Wrap ''failed to list ports: '' (Exec err'))
           | Inr output \<Rightarrow> parseNetstatOutput_linux w output))"

text \<open>
  The Linux enrichment is total, and every field is set by its own query alone: a query
  that fails leaves its field as it was and has no effect on the other fields.
\<close>

lemma enrichProcessInfo_linux_fields:
  "PID (enrichProcessInfo_linux w p) = PID p \<and>
   Port (enrichProcessInfo_linux w p) = Port p \<and>
   Name (enrichProcessInfo_linux w p) =
     (if Name p = [] then
        (case os_ReadFile w (''/proc/'' @ Itoa (PID p) @ ''/comm'') of
           Some cmdline \<Rightarrow> TrimSpace cmdline | None \<Rightarrow> [])
      else Name p) \<and>
   Command (enrichProcessInfo_linux w p) =
     (case os_ReadFile w (''/proc/'' @ Itoa (PID p) @ ''/cmdline'') of
        Some cmdline \<Rightarrow> TrimSpace (ReplaceAll cmdline (CHR 0x00) (CHR 0x20))
      | None \<Rightarrow> Command p) \<and>
   ProjectPath (enrichProcessInfo_linux w p) =
     (case os_Readlink w (''/proc/'' @ Itoa (PID p) @ ''/cwd'') of
        Some cwd \<Rightarrow> detectProject w (PID p) cwd
      | None \<Rightarrow> ProjectPath p) \<and>
   StartTime (enrichProcessInfo_linux w p) =
     (case getProcessStartTime w (PID p) of
        Inr startTime \<Rightarrow> startTime
      | Inl err \<Rightarrow>
          (case os_Stat w (''/proc/'' @ Itoa (PID p)) of
             Some modTime \<Rightarrow> modTime
           | None \<Rightarrow> StartTime p)) \<and>
   (IsDocker (enrichProcessInfo_linux w p), DockerID (enrichProcessInfo_linux w p)) =
     isDockerProcess w (PID p)"
  by (simp add: enrichProcessInfo_linux_def Let_def split: option.splits sum.splits)

subsection \<open>Runs of the Linux backend\<close>

text \<open>
  \<open>with_command argv output w\<close> is \<open>w\<close> with a command that succeeds and prints
  \<open>output\<close>; \<open>pid_port\<close> is the pair that identifies a record of \<open>ListAll\<close>.
\<close>

definition with_command :: "string list \<Rightarrow> string \<Rightarrow> os \<Rightarrow> os" where
  "with_command argv output w = w\<lparr>exec_Output := (exec_Output w)(argv := Inr output)\<rparr>"

definition pid_port :: "Process \<Rightarrow> int \<times> int" where
  "pid_port p = (PID p, Port p)"

text \<open>
  What \<open>ss -tulnp\<close> prints for a server that listens on port 80 of both socket
  families.
\<close>

definition ss_header :: string where
  "ss_header = ''Netid State  Recv-Q Send-Q Local Address:Port  Peer Address:Port Process''"

definition ss_dual_stack :: string where
  "ss_dual_stack = ss_header @
     ''\<newline>tcp   LISTEN 0      511          0.0.0.0:80        0.0.0.0:*    users:((\"nginx\",pid=1234,fd=6))'' @
     ''\<newline>tcp   LISTEN 0      511             [::]:80           [::]:*    users:((\"nginx\",pid=1234,fd=7))\<newline>''"


text \<open>
  Claim C2 says that \<open>listAll\<close> returns no two records with the same (pid, port)
  pair, on every backend. On Linux, the two lines of a dual-stack listener give two
  records of pid 1234 on port 80.
\<close>

theorem ListAll_linux_dual_stack:
  "map_sum id (map pid_port) (ListAll_linux (with_command [''ss'', ''-tulnp''] ss_dual_stack bare_os))
     = Inr [(1234, 80), (1234, 80)]"
  by code_simp

text \<open>
  A listener on port 8080 whose entries under \<open>/proc\<close> cannot be read (the process
  has exited since \<open>ss\<close> ran, or \<open>/proc\<close> hides it).
\<close>

definition ss_one_listener :: string where
  "ss_one_listener = ss_header @
     ''\<newline>tcp   LISTEN 0      4096         0.0.0.0:8080      0.0.0.0:*    users:((\"node\",pid=1234,fd=20))\<newline>''"

text \<open>
  Claim C1 says that every record the Finder returns has a non-zero \<open>startTime\<close>,
  the current time being the last fallback. On Linux, when \<open>/proc/1234/stat\<close> cannot
  be read and \<open>os.Stat\<close> of \<open>/proc/1234\<close> fails, the record is returned with the
  zero time.
\<close>

theorem FindByPort_linux_zero_StartTime:
  "FindByPort_linux (with_command [''ss'', ''-tulnp'', ''sport = :8080''] ss_one_listener bare_os) 8080
     = Inr (Some \<lparr>PID = 1234, Name = [], Port = 8080, Command = [], ProjectPath = [],
                      StartTime = 0, IsDocker = False, DockerID = []\<rparr>)"
  by code_simp

text \<open>
  A host where nothing listens on port 80 and a process listens on port 8080:
  \<open>ss\<close>, asked for port 80, prints its header only, and \<open>netstat\<close> lists the
  listener of port 8080.
\<close>

definition netstat_8080 :: string where
  "netstat_8080 =
     ''Active Internet connections (only servers)'' @
     ''\<newline>Proto Recv-Q Send-Q Local Address           Foreign Address         State       PID/Program name'' @
     ''\<newline>tcp        0      0 0.0.0.0:8080            0.0.0.0:*               LISTEN      1234/node\<newline>''"

definition free_port_80_os :: os where
  "free_port_80_os =
     with_command [''ss'', ''-tulnp'', ''sport = :80''] (ss_header @ ''\<newline>'')
       (with_command [''netstat'', ''-tulnp''] netstat_8080 bare_os)"

text \<open>
  Claim C3 says that \<open>findByPort\<close> returns none, and no error, for a port on which
  no process listens. On Linux the \<open>netstat\<close> fallback runs although \<open>ss\<close> has
  answered, and it looks for \<open>:80\<close> anywhere in the line: the listener of port 8080
  is returned as the owner of port 80.
\<close>

theorem FindByPort_linux_free_port:
  "map_sum id (map_option pid_port) (FindByPort_linux free_port_80_os 80) = Inr (Some (1234, 80))"
  by code_simp

text \<open>
  On a host without \<open>netstat\<close>, the same query of the free port 80 is an error.
\<close>

lemma FindByPort_linux_free_port_no_netstat:
  "FindByPort_linux (with_command [''ss'', ''-tulnp'', ''sport = :80''] (ss_header @ ''\<newline>'') bare_os) 80
     = Inl (Exec StartError)"
  by code_simp

section \<open>The macOS backend: enrichment\<close>

text \<open>\<open>strings.SplitN(s, sep, 2)\<close> for a one-byte separator: a split at the first one.\<close>

definition SplitN2 :: "string \<Rightarrow> char \<Rightarrow> string list" where
  "SplitN2 s c =
     (if c \<in> set s then [takeWhile (\<lambda>x. x \<noteq> c) s, tl (dropWhile (\<lambda>x. x \<noteq> c) s)] else [s])"

text \<open>The loop of \<open>enrichProcessInfo\<close> over the lines that \<open>lsof -d cwd\<close> prints.\<close>

fun cwd_loop :: "('a os_scheme) \<Rightarrow> Process \<Rightarrow> string list \<Rightarrow> Process" where
  "cwd_loop w proc [] = proc"
| "cwd_loop w proc (line # lines) =
     (if Contains line ''cwd'' then
        (let fields = Fields line
         in if length fields > 8
            then cwd_loop w (proc\<lparr>ProjectPath := detectProject w (PID proc) (last fields)\<rparr>) lines
            else cwd_loop w proc lines)
      else cwd_loop w proc lines)"

text \<open>
  \<open>enrichProcessInfo\<close> of the macOS backend. The first branch is the \<open>return\<close>
  taken when the first \<open>ps\<close> command fails.
\<close>

definition enrichProcessInfo_darwin :: "('a os_scheme) \<Rightarrow> Process \<Rightarrow> Process" where
  "enrichProcessInfo_darwin w proc0 =
     (case exec_Output w [''ps'', ''-p'', Itoa (PID proc0), ''-o'', ''comm=,command=''] of
        Inl err \<Rightarrow> proc0
      | Inr output \<Rightarrow>
          (let lines = Split (TrimSpace output) (CHR 0x0A);
               proc1 = (if length lines > 0 then
                          (let parts = SplitN2 (lines ! 0) (CHR 0x20)
                           in if length parts > 1 then proc0\<lparr>Command := TrimSpace (parts ! 1)\<rparr>
                              else proc0)
                        else proc0);
               proc2 = (case exec_Output w [''ps'', ''-p'', Itoa (PID proc0), ''-o'', ''lstart=''] of
                          Inr output \<Rightarrow>
                            (case time_Parse w (TrimSpace output) of
                               Some t \<Rightarrow> proc1\<lparr>StartTime := t\<rparr>
                             | None \<Rightarrow> proc1\<lparr>StartTime := time_Now w\<rparr>)
                        | Inl err \<Rightarrow> proc1);
               proc3 = (case exec_Output w [''lsof'', ''-p'', Itoa (PID proc0), ''-d'', ''cwd'', ''-a''] of
                          Inr output \<Rightarrow> cwd_loop w proc2 (Split output (CHR 0x0A))
                        | Inl err \<Rightarrow> proc2)
           in if Contains (Command proc3) ''docker'' \<or> Contains (Name proc3) ''com.docker''
              then proc3\<lparr>IsDocker := True\<rparr> else proc3))"

text \<open>
  A snapshot in which the first \<open>ps\<close> command fails and the two later queries, for
  the start time and the working directory, succeed.
\<close>

definition lsof_cwd :: string where
  "lsof_cwd =
     ''COMMAND    PID USER   FD   TYPE DEVICE SIZE/OFF     NODE NAME'' @
     ''\<newline>com.docke 1234    u  cwd    DIR    1,4      640 12345678 /Users/u/projects/app\<newline>''"

definition ps_fails_os :: os where
  "ps_fails_os =
     (with_command [''ps'', ''-p'', ''1234'', ''-o'', ''lstart=''] ''Thu Dec 28 10:30:45 2023\<newline>''
       (with_command [''lsof'', ''-p'', ''1234'', ''-d'', ''cwd'', ''-a''] lsof_cwd bare_os))
     \<lparr>time_Parse := (\<lambda>s. if s = ''Thu Dec 28 10:30:45 2023'' then Some 63839356245000000000 else None)\<rparr>"


text \<open>
  Claim C4 says that a failing sub-query leaves its own field at the default and does
  not abort the enrichment of the other fields. On macOS the failure of the first
  \<open>ps\<close> command returns at once: the start time, the project path and the container
  flag keep their zero values although their queries would succeed and the name contains
  \<open>com.docker\<close>.
\<close>

theorem enrichProcessInfo_darwin_aborts:
  "exec_Output ps_fails_os [''ps'', ''-p'', ''1234'', ''-o'', ''lstart='']
     = Inr ''Thu Dec 28 10:30:45 2023\<newline>'' \<and>
   exec_Output ps_fails_os [''lsof'', ''-p'', ''1234'', ''-d'', ''cwd'', ''-a''] = Inr lsof_cwd \<and>
   enrichProcessInfo_darwin ps_fails_os (new_Process 1234 ''com.docker.backend'' 8080)
     = \<lparr>PID = 1234, Name = ''com.docker.backend'', Port = 8080, Command = [], ProjectPath = [],
        StartTime = 0, IsDocker = False, DockerID = []\<rparr>"
  by code_simp

section \<open>The macOS backend: the Finder\<close>

text \<open>
  The pattern \<open>:(\d+)\s+\(LISTEN\)\<close> of \<open>parseLsofOutputMultiple\<close>. A match at a
  position is a colon, the longest run of digits, the longest run of white space and
  the text \<open>(LISTEN)\<close>; \<open>FindStringSubmatch\<close> takes the leftmost match, and
  \<open>port_match\<close> returns its group, the digits.
\<close>

definition is_digit :: "char \<Rightarrow> bool" where
  "is_digit c = (digit_val c \<noteq> None)"

definition is_regexp_space :: "char \<Rightarrow> bool" where
  "is_regexp_space c = (c \<in> set [CHR 0x09, CHR 0x0A, CHR 0x0C, CHR 0x0D, CHR 0x20])"

definition port_match_here :: "string \<Rightarrow> string option" where
  "port_match_here s =
     (case s of
        [] \<Rightarrow> None
      | c # r \<Rightarrow>
          (let digits = takeWhile is_digit r;
               r1 = dropWhile is_digit r;
               spaces = takeWhile is_regexp_space r1;
               r2 = dropWhile is_regexp_space r1
           in if c = CHR '':'' \<and> digits \<noteq> [] \<and> spaces \<noteq> [] \<and> HasPrefix r2 ''(LISTEN)''
              then Some digits else None))"

fun port_match :: "string \<Rightarrow> string option" where
  "port_match [] = None"
| "port_match (c # r) =
     (case port_match_here (c # r) of Some digits \<Rightarrow> Some digits | None \<Rightarrow> port_match r)"

text \<open>
  \<open>processMap\<close> is a Go map from the key \<open>pid-port\<close> to the record; the model keeps
  its entries in the order of insertion. The loop is the \<open>for\<close> over the lines.
\<close>

definition map_key :: "int \<Rightarrow> int \<Rightarrow> string" where
  "map_key pid port = Itoa pid @ ''-'' @ Itoa port"

fun parseLsofOutputMultiple_loop :: "('a os_scheme) \<Rightarrow> (string \<times> Process) list \<Rightarrow> string list
    \<Rightarrow> (string \<times> Process) list" where
  "parseLsofOutputMultiple_loop w processMap [] = processMap"
| "parseLsofOutputMultiple_loop w processMap (line # lines) =
     (let fields = Fields line
      in if length fields < 9 then parseLsofOutputMultiple_loop w processMap lines
         else if \<not> Contains line ''LISTEN'' then parseLsofOutputMultiple_loop w processMap lines
         else (case port_match line of
                 None \<Rightarrow> parseLsofOutputMultiple_loop w processMap lines
               | Some digits \<Rightarrow>
                   (case Atoi digits of
                      None \<Rightarrow> parseLsofOutputMultiple_loop w processMap lines
                    | Some port \<Rightarrow>
                        (case Atoi (fields ! 1) of
                           None \<Rightarrow> parseLsofOutputMultiple_loop w processMap lines
                         | Some pid \<Rightarrow>
                             (let key = map_key pid port
                              in if map_of processMap key \<noteq> None
                                 then parseLsofOutputMultiple_loop w processMap lines
                                 else parseLsofOutputMultiple_loop w
                                        (processMap @
                                           [(key, enrichProcessInfo_darwin w
                                                    (new_Process pid (fields ! 0) port))])
                                        lines)))))"

text \<open>
  \<open>parseLsofOutputMultiple\<close>. Go leaves the order in which a map is traversed open;
  the model returns the records in the order of insertion.
\<close>

definition parseLsofOutputMultiple :: "('a os_scheme) \<Rightarrow> string \<Rightarrow> Process list" where
  "parseLsofOutputMultiple w output =
     (let lines = Split (TrimSpace output) (CHR 0x0A)
      in if length lines < 2 then []
         else map snd (parseLsofOutputMultiple_loop w [] (tl lines)))"

definition ListAll_darwin :: "('a os_scheme) \<Rightarrow> Process list result" where
  "ListAll_darwin w =
     (case exec_Output w [''lsof'', ''-i'', ''-n'', ''-P''] of
        Inl err \<Rightarrow> Inl (Wrap ''lsof failed: '' (Exec err))
      | Inr output \<Rightarrow> Inr (parseLsofOutputMultiple w output))"

text \<open>The loop of \<open>parseLsofOutput\<close>: the first line in \<open>LISTEN\<close> state decides.\<close>

fun parseLsofOutput_loop :: "('a os_scheme) \<Rightarrow> int \<Rightarrow> string list \<Rightarrow> Process option" where
  "parseLsofOutput_loop w port [] = None"
| "parseLsofOutput_loop w port (line # lines) =
     (let fields = Fields line
      in if length fields < 9 then parseLsofOutput_loop w port lines
         else if \<not> Contains line ''LISTEN'' then parseLsofOutput_loop w port lines
         else (case Atoi (fields ! 1) of
                 None \<Rightarrow> parseLsofOutput_loop w port lines
               | Some pid \<Rightarrow> Some (enrichProcessInfo_darwin w (new_Process pid (fields ! 0) port))))"

definition parseLsofOutput :: "('a os_scheme) \<Rightarrow> string \<Rightarrow> int \<Rightarrow> Process option" where
  "parseLsofOutput w output port =
     (let lines = Split (TrimSpace output) (CHR 0x0A)
      in if length lines < 2 then None else parseLsofOutput_loop w port (tl lines))"

definition FindByPort_darwin :: "('a os_scheme) \<Rightarrow> int \<Rightarrow> Process option result" where
  "FindByPort_darwin w port =
     (case exec_Output w [''lsof'', ''-i'', '':'' @ Itoa port, ''-n'', ''-P''] of
        Inl (ExitError code) \<Rightarrow>
          (if code = 1 then Inr None else Inl (Wrap ''lsof failed: '' (Exec (ExitError code))))
      | Inl StartError \<Rightarrow> Inl (Wrap ''lsof failed: '' (Exec StartError))
      | Inr output \<Rightarrow> Inr (parseLsofOutput w output port))"

subsection \<open>The map keeps one record for each pair\<close>

text \<open>Enrichment changes neither the process identifier nor the port.\<close>

lemma cwd_loop_pid_port: "pid_port (cwd_loop w p lines) = pid_port p"
  by (induction lines arbitrary: p) (auto simp: pid_port_def Let_def)

lemma enrichProcessInfo_darwin_pid_port:
  "pid_port (enrichProcessInfo_darwin w p) = pid_port p"
proof -
  have "pid_port (cwd_loop w q lines) = pid_port q" for q lines
    by (rule cwd_loop_pid_port)
  then have *: "PID (cwd_loop w q lines) = PID q \<and> Port (cwd_loop w q lines) = Port q" for q lines
    by (simp add: pid_port_def)
  show ?thesis
    by (simp add: enrichProcessInfo_darwin_def pid_port_def Let_def *
             split: sum.splits option.splits)
qed

text \<open>
  The invariant of the loop: the keys of the map are distinct, and every record is stored
  under the key of its own pair.
\<close>

definition keyed :: "(string \<times> Process) list \<Rightarrow> bool" where
  "keyed processMap =
     (distinct (map fst processMap) \<and>
      list_all (\<lambda>(key, p). key = map_key (PID p) (Port p)) processMap)"

lemma parseLsofOutputMultiple_loop_keyed:
  "keyed processMap \<Longrightarrow> keyed (parseLsofOutputMultiple_loop w processMap lines)"
proof (induction lines arbitrary: processMap)
  case Nil
  then show ?case by simp
next
  case (Cons line lines)
  have step: "keyed (processMap @ [(map_key pid port, enrichProcessInfo_darwin w (new_Process pid name port))])"
    if "map_of processMap (map_key pid port) = None" for pid port name
  proof -
    have "pid_port (enrichProcessInfo_darwin w (new_Process pid name port)) = (pid, port)"
      by (simp add: enrichProcessInfo_darwin_pid_port) (simp add: pid_port_def new_Process_def)
    then have "map_key (PID (enrichProcessInfo_darwin w (new_Process pid name port)))
                 (Port (enrichProcessInfo_darwin w (new_Process pid name port))) = map_key pid port"
      by (simp add: pid_port_def)
    moreover from that have "map_key pid port \<notin> fst ` set processMap"
      by (simp add: map_of_eq_None_iff)
    ultimately show ?thesis
      using Cons.prems by (simp add: keyed_def)
  qed
  show ?case
    using Cons.IH [OF Cons.prems] Cons.IH [OF step]
    by (auto simp: Let_def split: option.splits)
qed

lemma keyed_distinct_pid_port: "keyed processMap \<Longrightarrow> distinct (map pid_port (map snd processMap))"
proof (induction processMap)
  case Nil
  then show ?case by simp
next
  case (Cons e es)
  obtain key p where e: "e = (key, p)" by (cases e)
  from Cons.prems have tl: "keyed es" by (simp add: keyed_def)
  have "pid_port p \<notin> set (map pid_port (map snd es))"
  proof
    assume "pid_port p \<in> set (map pid_port (map snd es))"
    then obtain key' p' where in_es: "(key', p') \<in> set es" and same: "pid_port p' = pid_port p"
      by auto
    from in_es tl have "key' = map_key (PID p') (Port p')"
      by (auto simp: keyed_def list_all_iff)
    moreover from Cons.prems e have "key = map_key (PID p) (Port p)"
      by (simp add: keyed_def)
    ultimately have "key' = key" using same by (simp add: pid_port_def)
    with in_es have "key \<in> fst ` set es" by force
    with Cons.prems e show False by (simp add: keyed_def)
  qed
  with Cons.IH [OF tl] e show ?case by simp
qed

text \<open>
  The macOS \<open>ListAll\<close> returns no two records with the same (pid, port) pair, in
  whatever order the map is traversed: a list without duplicates has none when permuted.
\<close>

lemma ListAll_darwin_distinct:
  "ListAll_darwin w = Inr ps \<Longrightarrow> distinct (map pid_port ps)"
proof -
  assume a: "ListAll_darwin w = Inr ps"
  have k: "keyed (parseLsofOutputMultiple_loop w [] lines)" for lines
    by (rule parseLsofOutputMultiple_loop_keyed) (simp add: keyed_def)
  have d: "distinct (map (pid_port \<circ> snd) (parseLsofOutputMultiple_loop w [] lines))" for lines
    using keyed_distinct_pid_port [OF k, of lines] by simp
  from a show ?thesis
    by (auto simp: ListAll_darwin_def parseLsofOutputMultiple_def Let_def d
             split: sum.splits if_splits)
qed

text \<open>\<open>lsof\<close> exits with code 1 when it finds nothing: that is no error.\<close>

lemma FindByPort_darwin_nothing_found:
  "exec_Output w [''lsof'', ''-i'', '':'' @ Itoa port, ''-n'', ''-P''] = Inl (ExitError 1)
   \<Longrightarrow> FindByPort_darwin w port = Inr None"
  by (simp add: FindByPort_darwin_def)

text \<open>The dual-stack listener of port 80, as \<open>lsof\<close> prints it: one record.\<close>

definition lsof_dual_stack :: string where
  "lsof_dual_stack =
     ''COMMAND   PID USER   FD   TYPE             DEVICE SIZE/OFF NODE NAME'' @
     ''\<newline>nginx    1234    u    6u  IPv4 0x1234567890abcdef      0t0  TCP *:80 (LISTEN)'' @
     ''\<newline>nginx    1234    u    7u  IPv6 0x1234567890abcdf0      0t0  TCP *:80 (LISTEN)\<newline>''"


lemma ListAll_darwin_dual_stack:
  "map_sum id (map pid_port)
     (ListAll_darwin (with_command [''lsof'', ''-i'', ''-n'', ''-P''] lsof_dual_stack bare_os))
   = Inr [(1234, 80)]"
  by code_simp

section \<open>The Windows backend: enrichment\<close>

text \<open>
  \<open>strconv.Atoi\<close> with the error dropped, as in \<open>year, _ := strconv.Atoi(...)\<close>:
  a string that is not a number gives \<open>0\<close>. \<open>ToLower\<close> is \<open>strings.ToLower\<close> on
  ASCII text.
\<close>

definition Atoi_or_zero :: "string \<Rightarrow> int" where
  "Atoi_or_zero s = (case Atoi s of Some n \<Rightarrow> n | None \<Rightarrow> 0)"

definition ToLower :: "string \<Rightarrow> string" where
  "ToLower s =
     map (\<lambda>c. let n = (of_char c :: int) in if 65 \<le> n \<and> n \<le> 90 then char_of (n + 32) else c) s"

text \<open>\<open>dateStr[i:j]\<close>, for indices within the string.\<close>

definition slice :: "string \<Rightarrow> nat \<Rightarrow> nat \<Rightarrow> string" where
  "slice s i j = take (j - i) (drop i s)"

text \<open>
  The loop over the parts of the command line: the project path is the result of the
  last part tried, and the loop stops at the first part that gives a project.
\<close>

fun command_path_loop :: "(int \<Rightarrow> string \<Rightarrow> string) \<Rightarrow> Process \<Rightarrow> string list \<Rightarrow> Process" where
  "command_path_loop detect proc [] = proc"
| "command_path_loop detect proc (part # parts) =
     (if Contains part [CHR 0x5C] \<or> Contains part ''/'' then
        (let proc' = proc\<lparr>ProjectPath := detect (PID proc) part\<rparr>
         in if ProjectPath proc' \<noteq> [] \<and> ProjectPath proc' \<noteq> ''unknown'' then proc'
            else command_path_loop detect proc' parts)
      else command_path_loop detect proc parts)"

text \<open>
  \<open>enrichProcessInfo\<close> of the Windows backend sets the command line, the start time,
  the project path and the container flag, one after the other; each of the four
  definitions below is one of these blocks. \<open>wmic\<close> is the query of one property of
  the process. \<open>detect\<close> is \<open>detectProject\<close> with the path functions of Windows,
  which are not modelled.
\<close>

definition wmic :: "('a os_scheme) \<Rightarrow> int \<Rightarrow> string \<Rightarrow> cmd_result" where
  "wmic w pid property =
     exec_Output w [''wmic'', ''process'', ''where'', ''ProcessId='' @ Itoa pid, ''get'', property,
                    ''/format:list'']"

definition windows_Command :: "('a os_scheme) \<Rightarrow> Process \<Rightarrow> Process" where
  "windows_Command w proc =
     (case wmic w (PID proc) ''CommandLine'' of
        Inr output \<Rightarrow>
          (case find (\<lambda>line. HasPrefix line ''CommandLine='') (Split output (CHR 0x0A)) of
             Some line \<Rightarrow> proc\<lparr>Command := TrimSpace (TrimPrefix line ''CommandLine='')\<rparr>
           | None \<Rightarrow> proc)
      | Inl err \<Rightarrow> proc)"

definition windows_StartTime :: "('a os_scheme) \<Rightarrow> Process \<Rightarrow> Process" where
  "windows_StartTime w proc =
     (let proc' =
        (case wmic w (PID proc) ''CreationDate'' of
           Inr output \<Rightarrow>
             (case find (\<lambda>line. HasPrefix line ''CreationDate='') (Split output (CHR 0x0A)) of
                Some line \<Rightarrow>
                  (let dateStr = TrimSpace (TrimPrefix line ''CreationDate='')
                   in if length dateStr \<ge> 14 then
                        proc\<lparr>StartTime :=
                          time_Date w (Atoi_or_zero (slice dateStr 0 4))
                            (Atoi_or_zero (slice dateStr 4 6))
                            (Atoi_or_zero (slice dateStr 6 8))
                            (Atoi_or_zero (slice dateStr 8 10))
                            (Atoi_or_zero (slice dateStr 10 12))
                            (Atoi_or_zero (slice dateStr 12 14))\<rparr>
                      else proc)
              | None \<Rightarrow> proc)
         | Inl err \<Rightarrow> proc)
      in if StartTime proc' = 0 then proc'\<lparr>StartTime := time_Now w\<rparr> else proc')"

definition windows_ProjectPath ::
    "(int \<Rightarrow> string \<Rightarrow> string) \<Rightarrow> ('a os_scheme) \<Rightarrow> Process \<Rightarrow> Process" where
  "windows_ProjectPath detect w proc =
     (let proc' =
        (case wmic w (PID proc) ''ExecutablePath'' of
           Inr output \<Rightarrow>
             (case find (\<lambda>line. HasPrefix line ''ExecutablePath='') (Split output (CHR 0x0A)) of
                Some line \<Rightarrow>
                  (let exePath = TrimSpace (TrimPrefix line ''ExecutablePath='')
                   in if exePath \<noteq> [] then proc\<lparr>ProjectPath := detect (PID proc) exePath\<rparr>
                      else proc)
              | None \<Rightarrow> proc)
         | Inl err \<Rightarrow> proc)
      in if ProjectPath proc' = [] \<and> Command proc' \<noteq> []
         then command_path_loop detect proc' (Fields (Command proc')) else proc')"

definition windows_IsDocker :: "Process \<Rightarrow> Process" where
  "windows_IsDocker proc =
     (if Contains (ToLower (Name proc)) ''docker'' \<or> Contains (ToLower (Command proc)) ''docker''
      then proc\<lparr>IsDocker := True\<rparr> else proc)"

definition enrichProcessInfo_windows ::
    "(int \<Rightarrow> string \<Rightarrow> string) \<Rightarrow> ('a os_scheme) \<Rightarrow> Process \<Rightarrow> Process" where
  "enrichProcessInfo_windows detect w proc =
     windows_IsDocker (windows_ProjectPath detect w (windows_StartTime w (windows_Command w proc)))"

text \<open>
  The Windows enrichment never leaves the start time zero: its last fallback is the
  current time.
\<close>

lemma command_path_loop_StartTime [simp]:
  "StartTime (command_path_loop detect p parts) = StartTime p"
  by (induction parts arbitrary: p) (auto simp: Let_def)

lemma windows_StartTime_set: "time_Now w \<noteq> 0 \<Longrightarrow> StartTime (windows_StartTime w p) \<noteq> 0"
  by (simp add: windows_StartTime_def Let_def)

lemma windows_ProjectPath_StartTime [simp]:
  "StartTime (windows_ProjectPath detect w p) = StartTime p"
  by (simp add: windows_ProjectPath_def Let_def split: sum.splits option.splits)

lemma windows_IsDocker_StartTime [simp]: "StartTime (windows_IsDocker p) = StartTime p"
  by (simp add: windows_IsDocker_def)

lemma enrichProcessInfo_windows_StartTime:
  "time_Now w \<noteq> 0 \<Longrightarrow> StartTime (enrichProcessInfo_windows detect w p) \<noteq> 0"
  by (simp add: enrichProcessInfo_windows_def windows_StartTime_set)

lemma ToLower_example: "ToLower ''Docker Desktop.EXE'' = ''docker desktop.exe''"
  by code_simp

lemma enrichProcessInfo_windows_example:
  "enrichProcessInfo_windows (\<lambda>pid path. ''unknown'') bare_os (new_Process 1234 ''node.exe'' 3000) =
     \<lparr>PID = 1234, Name = ''node.exe'', Port = 3000, Command = [], ProjectPath = [],
      StartTime = 1, IsDocker = False, DockerID = []\<rparr>"
  by code_simp

section \<open>Killing a process\<close>

text \<open>
  \<open>Process.Kill\<close> talks to the process table of the kernel. The record \<open>kernel\<close>
  extends the snapshot \<open>os\<close> by that table: for every process identifier whether the
  process is \<open>running\<close>, whether the caller is \<open>permitted\<close> to signal it, how it
  reacts to \<open>SIGTERM\<close> (\<open>exits_after = Some d\<close>: it exits \<open>d\<close> nanoseconds after
  the signal; \<open>None\<close>: it ignores the signal) and the time \<open>exit_at\<close> at which it
  is due to exit. \<open>findable\<close> is the result of \<open>os.FindProcess\<close>, which never fails
  on Unix. \<open>calls\<close> is the log of the calls the program has made.
\<close>

datatype signal = SIGTERM | SIGKILL | Signal0

datatype call = FindProcess int | SendSignal int signal | Sleep int

record target =
  running :: bool
  permitted :: bool
  exits_after :: "int option"
  exit_at :: "time option"

record kernel = os +
  procs :: "int \<Rightarrow> target"
  findable :: "int \<Rightarrow> bool"
  calls :: "call list"

definition os_FindProcess :: "int \<Rightarrow> kernel \<Rightarrow> error option \<times> kernel" where
  "os_FindProcess pid k =
     (let k' = k\<lparr>calls := calls k @ [FindProcess pid]\<rparr>
      in if findable k pid then (None, k') else (Some (Errno ''OpenProcess''), k'))"

text \<open>
  \<open>process.Signal(sig)\<close>: an error when the process is gone or the caller may not
  signal it; otherwise signal 0 does nothing, \<open>SIGKILL\<close> ends the process and
  \<open>SIGTERM\<close> starts its shutdown, if it has one.
\<close>

definition Signal :: "int \<Rightarrow> signal \<Rightarrow> kernel \<Rightarrow> error option \<times> kernel" where
  "Signal pid sig k =
     (let t = procs k pid;
          k' = k\<lparr>calls := calls k @ [SendSignal pid sig]\<rparr>
      in if \<not> running t then (Some (Errno ''os: process already finished''), k')
         else if \<not> permitted t then (Some (Errno ''operation not permitted''), k')
         else (case sig of
                 Signal0 \<Rightarrow> (None, k')
               | SIGKILL \<Rightarrow> (None, k'\<lparr>procs := (procs k')(pid := t\<lparr>running := False\<rparr>)\<rparr>)
               | SIGTERM \<Rightarrow>
                   (None, k'\<lparr>procs := (procs k')(pid := t\<lparr>exit_at :=
                      (case exits_after t of
                         None \<Rightarrow> exit_at t
                       | Some d \<Rightarrow> Some (time_Now k + d))\<rparr>)\<rparr>)))"

text \<open>\<open>time.Sleep(d)\<close>: the clock advances, and the processes due to exit by then exit.\<close>

definition time_Sleep :: "int \<Rightarrow> kernel \<Rightarrow> kernel" where
  "time_Sleep d k =
     k\<lparr>time_Now := time_Now k + d,
       procs := (\<lambda>pid. let t = procs k pid
                        in case exit_at t of
                             None \<Rightarrow> t
                           | Some e \<Rightarrow> if e \<le> time_Now k + d then t\<lparr>running := False\<rparr> else t),
       calls := calls k @ [Sleep d]\<rparr>"

definition Second :: int where
  "Second = 1000000000"

definition Kill :: "Process \<Rightarrow> kernel \<Rightarrow> error option \<times> kernel" where
  "Kill p k0 =
     (case os_FindProcess (PID p) k0 of
        (Some err, k1) \<Rightarrow> (Some (Wrap ''process not found: '' err), k1)
      | (None, k1) \<Rightarrow>
          (case Signal (PID p) SIGTERM k1 of
             (Some err, k2) \<Rightarrow> (Some (Wrap ''failed to send SIGTERM: '' err), k2)
           | (None, k2) \<Rightarrow>
               (let k3 = time_Sleep (2 * Second) k2
                in case Signal (PID p) Signal0 k3 of
                     (None, k4) \<Rightarrow>
                       (case Signal (PID p) SIGKILL k4 of
                          (Some err, k5) \<Rightarrow> (Some (Wrap ''failed to kill process: '' err), k5)
                        | (None, k5) \<Rightarrow> (None, k5))
                   | (Some err, k4) \<Rightarrow> (None, k4))))"



text \<open>
  A kernel without processes, and \<open>with_process pid t k\<close>, which is \<open>k\<close> with the
  process \<open>pid\<close> in the state \<open>t\<close>.
\<close>

definition idle_target :: target where
  "idle_target = \<lparr>running = False, permitted = False, exits_after = None, exit_at = None\<rparr>"

definition bare_kernel :: kernel where
  "bare_kernel =
     \<lparr>os_Stat = (\<lambda>p. None), os_ReadFile = (\<lambda>p. None), os_Readlink = (\<lambda>p. None),
      exec_Output = (\<lambda>argv. Inl StartError), sys_Uptime = None, time_Now = 1,
      time_Parse = (\<lambda>s. None), time_Date = (\<lambda>y mo d h mi s. 1),
      procs = (\<lambda>pid. idle_target), findable = (\<lambda>pid. True), calls = []\<rparr>"

definition with_process :: "int \<Rightarrow> target \<Rightarrow> kernel \<Rightarrow> kernel" where
  "with_process pid t k = k\<lparr>procs := (procs k)(pid := t)\<rparr>"


definition stubborn :: target where
  "stubborn = \<lparr>running = True, permitted = True, exits_after = None, exit_at = None\<rparr>"

definition foreign :: target where
  "foreign = \<lparr>running = True, permitted = False, exits_after = Some Second, exit_at = None\<rparr>"




section \<open>The interactive process list\<close>

text \<open>
  The messages and commands of the terminal-UI loop. A \<open>tea.Cmd\<close> may be \<open>nil\<close>:
  the list that \<open>Update\<close> hands to \<open>tea.Batch\<close> is a list of \<open>cmd option\<close>.
\<close>

datatype msg =
    WindowSizeMsg int int
  | KeyMsg string
  | processesLoadedMsg "Process list"
  | timerExpiredMsg
  | spinner_TickMsg
  | other_Msg

datatype cmd = tea_Quit | waitForTimer | reloadProcesses | library_cmd

text \<open>
  What \<open>Update\<close> uses and the model leaves open: the table and the spinner of
  the \<open>bubbles\<close> library, over their own state types \<open>'t\<close> and \<open>'s\<close>, and
  \<open>formatDuration\<close>, which the program computes in \<open>float64\<close>.
\<close>

record ('t, 's) library =
  table_Cursor :: "'t \<Rightarrow> int"
  table_Rows :: "'t \<Rightarrow> string list list"
  table_SetRows :: "string list list \<Rightarrow> 't \<Rightarrow> 't"
  table_SetHeight :: "int \<Rightarrow> 't \<Rightarrow> 't"
  table_SetWidth :: "int \<Rightarrow> 't \<Rightarrow> 't"
  table_Update :: "msg \<Rightarrow> 't \<Rightarrow> 't \<times> cmd option"
  spinner_Update :: "msg \<Rightarrow> 's \<Rightarrow> 's \<times> cmd option"
  formatDuration :: "int \<Rightarrow> string"

record ('t, 's) ProcessListModel =
  processes :: "Process list"
  table :: 't
  spinner :: 's
  loading :: bool
  showHelp :: bool
  width :: int
  height :: int
  message :: string
  messageTimer :: "int option"

definition keys_Quit :: "string list" where "keys_Quit = [''q'', ''ctrl+c'']"
definition keys_Help :: "string list" where "keys_Help = [''?'']"
definition keys_Kill :: "string list" where "keys_Kill = [''delete'', ''d'']"
definition keys_Reload :: "string list" where "keys_Reload = [''r'']"

definition truncate_str :: "string \<Rightarrow> nat \<Rightarrow> string" where
  "truncate_str s n = (if length s \<le> n then s else take (n - 3) s @ ''...'')"

text \<open>\<open>time.Since\<close>: the duration since \<open>t\<close>, kept within the range of \<open>int64\<close>.\<close>

definition time_Since :: "time \<Rightarrow> time \<Rightarrow> int" where
  "time_Since now t = max (- 9223372036854775808) (min 9223372036854775807 (now - t))"

definition processToRow :: "('t, 's) library \<Rightarrow> time \<Rightarrow> Process \<Rightarrow> string list" where
  "processToRow lib now p =
     (let projectPath = (if ProjectPath p = [] \<or> ProjectPath p = ''unknown'' then ''-''
                         else ProjectPath p);
          processType = (if IsDocker p then ''Docker'' else ''Native'')
      in [Itoa (Port p), Name p, Itoa (PID p), truncate_str projectPath 30,
          formatDuration lib (time_Since now (StartTime p)), processType])"

text \<open>The text of an error, as \<open>%v\<close> prints it.\<close>

fun error_text :: "error \<Rightarrow> string" where
  "error_text (Exec (ExitError n)) = ''exit status '' @ Itoa n"
| "error_text (Exec StartError) = ''exec: not started''"
| "error_text (Errno s) = s"
| "error_text (Msg s) = s"
| "error_text (Wrap s e) = s @ error_text e"
| "error_text (Panic s) = ''panic: '' @ s"

text \<open>The two messages of the kill action; they start with the UTF-8 bytes of their signs.\<close>

definition failed_message :: "error \<Rightarrow> string" where
  "failed_message e = [CHR 0xE2, CHR 0x9D, CHR 0x8C] @ '' Failed to kill process: '' @ error_text e"

definition killed_message :: "Process \<Rightarrow> string" where
  "killed_message p =
     [CHR 0xE2, CHR 0x9C, CHR 0x85] @ '' Killed '' @ Name p @ '' (PID: '' @ Itoa (PID p) @ '')''"

text \<open>
  The end of \<open>Update\<close>, after the \<open>switch\<close>: the table sees the message too, and
  its command joins the batch.
\<close>

definition finish :: "('t, 's) library \<Rightarrow> msg \<Rightarrow> ('t, 's) ProcessListModel \<Rightarrow> cmd option list \<Rightarrow> kernel
    \<Rightarrow> error + ('t, 's) ProcessListModel \<times> cmd option list \<times> kernel" where
  "finish lib msg m cmds k =
     Inr (m\<lparr>table := fst (table_Update lib msg (table m))\<rparr>,
          cmds @ [snd (table_Update lib msg (table m))], k)"

text \<open>
  \<open>ProcessListModel.Update\<close>. \<open>Kill\<close> acts on the kernel, which is threaded through.
  Indexing \<open>m.processes\<close> with a negative cursor is a run-time panic.
\<close>

definition Update :: "('t, 's) library \<Rightarrow> msg \<Rightarrow> ('t, 's) ProcessListModel \<Rightarrow> kernel
    \<Rightarrow> error + ('t, 's) ProcessListModel \<times> cmd option list \<times> kernel" where
  "Update lib msg m k =
     (case msg of
        WindowSizeMsg w h \<Rightarrow>
          finish lib msg
            (m\<lparr>width := w, height := h,
               table := table_SetWidth lib (w - 4) (table_SetHeight lib (h - 10) (table m))\<rparr>) [] k
      | KeyMsg key \<Rightarrow>
          (if loading m then Inr (m, [], k)
           else if key \<in> set keys_Quit then Inr (m, [Some tea_Quit], k)
           else if key \<in> set keys_Help then finish lib msg (m\<lparr>showHelp := \<not> showHelp m\<rparr>) [] k
           else if key \<in> set keys_Kill then
             (let cursor = table_Cursor lib (table m)
              in if length (processes m) > 0 \<and> cursor < int (length (processes m)) then
                   (if cursor < 0 then Inl (Panic ''index out of range'')
                    else (let proc = processes m ! nat cursor
                          in case Kill proc k of
                               (Some err, k') \<Rightarrow>
                                 finish lib msg
                                   (m\<lparr>message := failed_message err,
                                      messageTimer := Some (3 * Second)\<rparr>)
                                   [Some waitForTimer] k'
                             | (None, k') \<Rightarrow>
                                 (let ps = take (nat cursor) (processes m) @
                                           drop (nat cursor + 1) (processes m);
                                      rows = map (processToRow lib (time_Now k')) ps
                                  in finish lib msg
                                       (m\<lparr>message := killed_message proc,
                                          processes := ps,
                                          table := table_SetRows lib rows (table m),
                                          messageTimer := Some (3 * Second)\<rparr>)
                                       [Some waitForTimer] k')))
                 else finish lib msg m [] k)
           else if key \<in> set keys_Reload then
             finish lib msg (m\<lparr>loading := True\<rparr>) [Some reloadProcesses] k
           else finish lib msg m [] k)
      | processesLoadedMsg ps \<Rightarrow>
          finish lib msg
            (m\<lparr>loading := False, processes := ps,
               table := table_SetRows lib (map (processToRow lib (time_Now k)) ps) (table m)\<rparr>) [] k
      | timerExpiredMsg \<Rightarrow> finish lib msg (m\<lparr>message := []\<rparr>) [] k
      | spinner_TickMsg \<Rightarrow>
          (if loading m then
             finish lib msg (m\<lparr>spinner := fst (spinner_Update lib msg (spinner m))\<rparr>)
               [snd (spinner_Update lib msg (spinner m))] k
           else finish lib msg m [] k)
      | other_Msg \<Rightarrow> finish lib msg m [] k)"

text \<open>
  Claim C10. In the process-list view, when the kill of the selected process fails, the
  process list and the rows of the table are left unchanged: the new model is the old
  one with the error message (and its timer) set and the table after the library has
  seen the key, which keeps the rows. A key message changes the process list only when
  it is a kill key and the kill of the selected process succeeds, and then exactly the
  selected process is removed. The table of the library is a parameter, assumed to keep
  its rows in \<open>Update\<close>.
\<close>

theorem Update_kill_failure_frame:
  assumes rows_kept: "\<And>msg t. table_Rows lib (fst (table_Update lib msg t)) = table_Rows lib t"
  shows "(key \<in> set keys_Kill \<and> \<not> loading m \<and> 0 \<le> table_Cursor lib (table m) \<and>
          table_Cursor lib (table m) < int (length (processes m)) \<and>
          fst (Kill (processes m ! nat (table_Cursor lib (table m))) k) = Some err \<longrightarrow>
          (\<exists>t' cmds.
             Update lib (KeyMsg key) m k =
               Inr (m\<lparr>message := failed_message err, messageTimer := Some (3 * Second), table := t'\<rparr>,
                    cmds, snd (Kill (processes m ! nat (table_Cursor lib (table m))) k)) \<and>
             table_Rows lib t' = table_Rows lib (table m)))
       \<and> (\<forall>m' cmds k'. Update lib (KeyMsg key) m k = Inr (m', cmds, k') \<and>
             processes m' \<noteq> processes m \<longrightarrow>
             key \<in> set keys_Kill \<and> 0 \<le> table_Cursor lib (table m) \<and>
             table_Cursor lib (table m) < int (length (processes m)) \<and>
             fst (Kill (processes m ! nat (table_Cursor lib (table m))) k) = None \<and>
             processes m' = take (nat (table_Cursor lib (table m))) (processes m) @
                            drop (nat (table_Cursor lib (table m)) + 1) (processes m))"
proof (intro conjI impI allI)
  assume a: "key \<in> set keys_Kill \<and> \<not> loading m \<and> 0 \<le> table_Cursor lib (table m) \<and>
          table_Cursor lib (table m) < int (length (processes m)) \<and>
          fst (Kill (processes m ! nat (table_Cursor lib (table m))) k) = Some err"
  then have nq: "key \<notin> set keys_Quit" "key \<notin> set keys_Help"
    by (auto simp: keys_Kill_def keys_Quit_def keys_Help_def)
  obtain k' where kk: "Kill (processes m ! nat (table_Cursor lib (table m))) k = (Some err, k')"
    using a by (cases "Kill (processes m ! nat (table_Cursor lib (table m))) k") auto
  have "Update lib (KeyMsg key) m k =
      Inr (m\<lparr>message := failed_message err, messageTimer := Some (3 * Second),
             table := fst (table_Update lib (KeyMsg key) (table m))\<rparr>,
           [Some waitForTimer, snd (table_Update lib (KeyMsg key) (table m))], k')"
  proof -
    from a have "processes m \<noteq> []" by auto
    with a nq kk show ?thesis by (simp add: Update_def finish_def Let_def)
  qed
  with kk rows_kept show "\<exists>t' cmds.
             Update lib (KeyMsg key) m k =
               Inr (m\<lparr>message := failed_message err, messageTimer := Some (3 * Second), table := t'\<rparr>,
                    cmds, snd (Kill (processes m ! nat (table_Cursor lib (table m))) k)) \<and>
             table_Rows lib t' = table_Rows lib (table m)"
    by auto
next
  fix m' cmds k'
  assume b: "Update lib (KeyMsg key) m k = Inr (m', cmds, k') \<and> processes m' \<noteq> processes m"
  then show "key \<in> set keys_Kill"
    by (auto simp: Update_def finish_def Let_def split: if_splits prod.splits option.splits)
  from b show "0 \<le> table_Cursor lib (table m)"
    by (auto simp: Update_def finish_def Let_def split: if_splits prod.splits option.splits)
  from b show "table_Cursor lib (table m) < int (length (processes m))"
    by (auto simp: Update_def finish_def Let_def split: if_splits prod.splits option.splits)
  from b show "fst (Kill (processes m ! nat (table_Cursor lib (table m))) k) = None"
    by (auto simp: Update_def finish_def Let_def split: if_splits prod.splits option.splits)
  from b show "processes m' = take (nat (table_Cursor lib (table m))) (processes m) @
                            drop (nat (table_Cursor lib (table m)) + 1) (processes m)"
    by (auto simp: Update_def finish_def Let_def split: if_splits prod.splits option.splits)
qed

text \<open>
  A table for concrete runs: its state is the rows and the cursor, and its \<open>Update\<close>
  moves the cursor on the arrow keys. The spinner counts its frames.
\<close>

definition plain_table_Update :: "msg \<Rightarrow> string list list \<times> int \<Rightarrow> (string list list \<times> int) \<times> cmd option" where
  "plain_table_Update msg t =
     (case msg of
        KeyMsg key \<Rightarrow>
          (if key \<in> set [''down'', ''j''] then ((fst t, min (snd t + 1) (int (length (fst t)) - 1)), None)
           else if key \<in> set [''up'', ''k''] then ((fst t, max (snd t - 1) 0), None)
           else (t, None))
      | _ \<Rightarrow> (t, None))"

definition plain_library :: "(string list list \<times> int, nat) library" where
  "plain_library =
     \<lparr>table_Cursor = snd, table_Rows = fst,
      table_SetRows = (\<lambda>rows t. (rows, min (snd t) (int (length rows) - 1))),
      table_SetHeight = (\<lambda>h t. t), table_SetWidth = (\<lambda>w t. t),
      table_Update = plain_table_Update,
      spinner_Update = (\<lambda>msg s. (Suc s, Some library_cmd)),
      formatDuration = (\<lambda>d. ''a while'')\<rparr>"

text \<open>
  The list view over two processes: \<open>init\<close>, which the caller may not signal, and a
  server of the caller that ignores \<open>SIGTERM\<close>. The cursor is on row \<open>cursor\<close>.
\<close>

definition two_processes :: "Process list" where
  "two_processes = [new_Process 1 ''init'' 80, new_Process 4242 ''node'' 3000]"

definition list_view :: "int \<Rightarrow> (string list list \<times> int, nat) ProcessListModel" where
  "list_view cursor =
     \<lparr>processes = two_processes,
      table = (map (processToRow plain_library 1) two_processes, cursor),
      spinner = 0, loading = False, showHelp = False, width = 80, height = 24,
      message = [], messageTimer = None\<rparr>"

definition two_kernel :: kernel where
  "two_kernel = with_process 1 foreign (with_process 4242 stubborn bare_kernel)"

lemma plain_rows_kept:
  "table_Rows plain_library (fst (table_Update plain_library msg t)) = table_Rows plain_library t"
  by (simp add: plain_library_def plain_table_Update_def split: msg.splits)


text \<open>
  Two runs of the kill key: on \<open>init\<close> the kill fails and the view keeps both
  processes and both rows; on the server the kill succeeds and the server leaves the list.
\<close>

theorem Update_kill_failure_frame_witness:
  "(\<exists>t' cmds.
      Update plain_library (KeyMsg ''d'') (list_view 0) two_kernel =
        Inr ((list_view 0)\<lparr>message := failed_message
                 (Wrap ''failed to send SIGTERM: '' (Errno ''operation not permitted'')),
               messageTimer := Some (3 * Second), table := t'\<rparr>,
             cmds, snd (Kill (new_Process 1 ''init'' 80) two_kernel)) \<and>
      table_Rows plain_library t' = table_Rows plain_library (table (list_view 0)))
   \<and> (\<exists>m' cmds k'.
        Update plain_library (KeyMsg ''d'') (list_view 1) two_kernel = Inr (m', cmds, k') \<and>
        processes m' = [new_Process 1 ''init'' 80] \<and>
        fst (Kill (new_Process 4242 ''node'' 3000) two_kernel) = None)"
proof -
  note thm0 = Update_kill_failure_frame [of plain_library "''d''" "list_view 0" two_kernel
      "Wrap ''failed to send SIGTERM: '' (Errno ''operation not permitted'')", OF plain_rows_kept]
  note thm1 = Update_kill_failure_frame [of plain_library "''d''" "list_view 1" two_kernel
      "Wrap ''failed to send SIGTERM: '' (Errno ''operation not permitted'')", OF plain_rows_kept]
  have c0: "table_Cursor plain_library (table (list_view 0)) = 0"
    and c1: "table_Cursor plain_library (table (list_view 1)) = 1"
    and ps: "processes (list_view c) = two_processes" for c
    by (simp_all add: plain_library_def list_view_def)
  have k0: "fst (Kill (new_Process 1 ''init'' 80) two_kernel) =
      Some (Wrap ''failed to send SIGTERM: '' (Errno ''operation not permitted''))"
    by (simp add: Kill_def os_FindProcess_def Signal_def two_kernel_def with_process_def
          bare_kernel_def foreign_def new_Process_def Let_def)
  have hyp0: "''d'' \<in> set keys_Kill \<and> \<not> loading (list_view 0) \<and>
      0 \<le> table_Cursor plain_library (table (list_view 0)) \<and>
      table_Cursor plain_library (table (list_view 0)) < int (length (processes (list_view 0))) \<and>
      fst (Kill (processes (list_view 0) ! nat (table_Cursor plain_library (table (list_view 0))))
             two_kernel) =
        Some (Wrap ''failed to send SIGTERM: '' (Errno ''operation not permitted''))"
    using k0 by (simp add: c0 ps keys_Kill_def two_processes_def) (simp add: list_view_def)
  from thm0 hyp0 have first: "\<exists>t' cmds.
      Update plain_library (KeyMsg ''d'') (list_view 0) two_kernel =
        Inr ((list_view 0)\<lparr>message := failed_message
                 (Wrap ''failed to send SIGTERM: '' (Errno ''operation not permitted'')),
               messageTimer := Some (3 * Second), table := t'\<rparr>,
             cmds, snd (Kill (new_Process 1 ''init'' 80) two_kernel)) \<and>
      table_Rows plain_library t' = table_Rows plain_library (table (list_view 0))"
    by (simp add: c0 ps two_processes_def)
  obtain m' cmds k' where
    u: "Update plain_library (KeyMsg ''d'') (list_view 1) two_kernel = Inr (m', cmds, k')"
    and changed: "processes m' \<noteq> processes (list_view 1)"
    by (simp add: Update_def finish_def Kill_def os_FindProcess_def Signal_def time_Sleep_def
          two_kernel_def with_process_def bare_kernel_def stubborn_def foreign_def
          new_Process_def Let_def keys_Kill_def keys_Quit_def keys_Help_def list_view_def
          two_processes_def plain_library_def)
  from thm1 u changed have
    "fst (Kill (processes (list_view 1) ! nat (table_Cursor plain_library (table (list_view 1))))
            two_kernel) = None \<and>
     processes m' = take (nat (table_Cursor plain_library (table (list_view 1)))) (processes (list_view 1)) @
        drop (nat (table_Cursor plain_library (table (list_view 1))) + 1) (processes (list_view 1))"
    by blast
  then have "fst (Kill (new_Process 4242 ''node'' 3000) two_kernel) = None \<and>
     processes m' = [new_Process 1 ''init'' 80]"
    by (simp add: c1 ps two_processes_def)
  with u have second: "\<exists>m' cmds k'.
        Update plain_library (KeyMsg ''d'') (list_view 1) two_kernel = Inr (m', cmds, k') \<and>
        processes m' = [new_Process 1 ''init'' 80] \<and>
        fst (Kill (new_Process 4242 ''node'' 3000) two_kernel) = None"
    by blast
  from first second show ?thesis by blast
qed

end
